theory Spec2Isabelle
  imports Main
begin

section \<open>JavaScript values\<close>

text \<open>
  The values the three modules handle: documents, payload fields, diagnostic data.
  A plain object is the association list of its own properties in \<open>Object.keys\<close> order,
  a \<open>Map\<close> object the list of its entries.  Numbers are only compared and passed
  through by the code under study, so they are integers here.  A function is known by
  its name and its \<open>length\<close>; a built-in object such as \<open>Object.prototype\<close> by its name
  and its own properties, none of which \<open>Object.keys\<close> lists.
\<close>

datatype jsval =
    JUndefined
  | JNull
  | JBool bool
  | JNum int
  | JStr string
  | JArr "jsval list"
  | JObj "(string \<times> jsval) list"
  | JMap "(string \<times> jsval) list"
  | JFunction string nat
  | JBuiltin string "(string \<times> jsval) list"

text \<open>The \<open>typeof\<close> operator.\<close>

fun typeof :: "jsval \<Rightarrow> string" where
  "typeof JUndefined = ''undefined''"
| "typeof JNull = ''object''"
| "typeof (JBool b) = ''boolean''"
| "typeof (JNum n) = ''number''"
| "typeof (JStr s) = ''string''"
| "typeof (JArr xs) = ''object''"
| "typeof (JObj kvs) = ''object''"
| "typeof (JMap kvs) = ''object''"
| "typeof (JFunction name arity) = ''function''"
| "typeof (JBuiltin name props) = ''object''"

text \<open>Truthiness, as \<open>if (v)\<close> and \<open>v ? a : b\<close> test it.\<close>

fun truthy :: "jsval \<Rightarrow> bool" where
  "truthy JUndefined = False"
| "truthy JNull = False"
| "truthy (JBool b) = b"
| "truthy (JNum n) = (n \<noteq> 0)"
| "truthy (JStr s) = (s \<noteq> [])"
| "truthy (JArr xs) = True"
| "truthy (JObj kvs) = True"
| "truthy (JMap kvs) = True"
| "truthy (JFunction name arity) = True"
| "truthy (JBuiltin name props) = True"

text \<open>The decimal numeral of an array index, as a property key.\<close>

definition digit_char :: "nat \<Rightarrow> char" where
  "digit_char d = ''0123456789'' ! (d mod 10)"

fun show_nat :: "nat \<Rightarrow> string" where
  "show_nat n = (if n < 10 then [digit_char n] else show_nat (n div 10) @ [digit_char (n mod 10)])"

declare show_nat.simps [simp del]

text \<open>
  The own properties of a value whose \<open>typeof\<close> is \<open>object\<close>: the properties of an
  object, the indices and \<open>length\<close> of an array, the listed properties of a built-in
  object.  A \<open>Map\<close> object keeps its entries apart from its properties and owns none.
\<close>

fun own_property :: "jsval \<Rightarrow> string \<Rightarrow> jsval option" where
  "own_property (JObj kvs) part = map_of kvs part"
| "own_property (JArr xs) part =
     (if part = ''length'' then Some (JNum (int (length xs)))
      else map_of (zip (map show_nat [0..<length xs]) xs) part)"
| "own_property (JBuiltin name props) part = map_of props part"
| "own_property v part = None"

section \<open>Partition key extraction (extractPartitionKey.js)\<close>

text \<open>
  The module imports \<open>parsePath\<close>, the two partition key literals and the default
  partition key path from files that are not part of the sources.  From the runtime it
  takes \<open>JSON.stringify\<close> and, through the operator \<open>in\<close>, the prototype chains:
  \<open>inherited_property v part\<close> is what the chain of \<open>v\<close> answers for a property \<open>part\<close> that
  \<open>v\<close> does not own (\<open>Object.prototype\<close> for an object, \<open>Array.prototype\<close> before it for
  an array), and \<open>None\<close> when the chain has no such property.  All of these are
  parameters of the model; \<open>parsePath\<close> is taken as a function that returns the segments
  of every path.  The comparison \<open>===\<close> with the null literal is equality of values.
\<close>

record pk_imports =
  parsePath :: "string \<Rightarrow> string list"
  NullPartitionKeyLiteral :: jsval
  NonePartitionKeyLiteral :: jsval
  DEFAULT_PARTITION_KEY_PATH :: string
  JSON_stringify :: "jsval \<Rightarrow> string option"
  inherited_property :: "jsval \<Rightarrow> string \<Rightarrow> jsval option"

record PartitionKeyDefinition =
  paths :: "string list option"
  systemKey :: "bool option"

text \<open>
  \<open>lookup_property E obj part\<close> is \<open>Some (obj[part])\<close> when \<open>part in obj\<close> holds and \<open>None\<close>
  otherwise, for a value whose \<open>typeof\<close> is \<open>object\<close> and that is not \<open>null\<close>: an own
  property first, a property of the prototype chain after it.
\<close>

definition lookup_property :: "'x pk_imports_scheme \<Rightarrow> jsval \<Rightarrow> string \<Rightarrow> jsval option" where
  "lookup_property E obj part =
     (case own_property obj part of
        Some v \<Rightarrow> Some v
      | None \<Rightarrow> inherited_property E obj part)"

text \<open>The \<open>for (const part of pathParts)\<close> loop of \<open>extractPartitionKey\<close>.\<close>

fun walk_path :: "'x pk_imports_scheme \<Rightarrow> string list \<Rightarrow> jsval \<Rightarrow> jsval" where
  "walk_path E [] obj = obj"
| "walk_path E (part # rest) obj =
     (if typeof obj = ''object'' \<and> obj \<noteq> JNull then
        (case lookup_property E obj part of
           Some v \<Rightarrow> walk_path E rest v
         | None \<Rightarrow> JUndefined)
      else JUndefined)"

definition extractPartitionKey :: "'x pk_imports_scheme \<Rightarrow> string \<Rightarrow> jsval \<Rightarrow> jsval" where
  "extractPartitionKey E path document =
     (let obj = walk_path E (parsePath E path) document in
      if typeof obj = ''string'' \<or> typeof obj = ''number'' \<or> typeof obj = ''boolean'' then obj
      else if obj = NullPartitionKeyLiteral E then NullPartitionKeyLiteral E
      else if obj = JUndefined \<or> JSON_stringify E obj = JSON_stringify E (NonePartitionKeyLiteral E)
        then NonePartitionKeyLiteral E
      else JUndefined)"

text \<open>
  The callback handed to \<open>paths.forEach\<close>: its \<open>return undefined\<close> leaves the callback
  only, so an unsupported value is skipped and the iteration goes on.
\<close>

definition forEach_callback ::
  "'x pk_imports_scheme \<Rightarrow> jsval \<Rightarrow> jsval list \<Rightarrow> string \<Rightarrow> jsval list" where
  "forEach_callback E document partitionKeys path =
     (let obj = extractPartitionKey E path document in
      if obj = JUndefined then partitionKeys else partitionKeys @ [obj])"

text \<open>\<open>None\<close> is the result \<open>undefined\<close>; the two logger calls have no other effect.\<close>

definition extractPartitionKeys ::
  "'x pk_imports_scheme \<Rightarrow> jsval \<Rightarrow> PartitionKeyDefinition option \<Rightarrow> jsval list option" where
  "extractPartitionKeys E document partitionKeyDefinition =
     (case partitionKeyDefinition of
        None \<Rightarrow> None
      | Some d \<Rightarrow>
          (case paths d of
             None \<Rightarrow> None
           | Some ps \<Rightarrow>
               if length ps > 0 then
                 if systemKey d = Some True then Some []
                 else if length ps = 1 \<and> ps ! 0 = DEFAULT_PARTITION_KEY_PATH E
                   then Some [extractPartitionKey E (DEFAULT_PARTITION_KEY_PATH E) document]
                 else Some (foldl (forEach_callback E document) [] ps)
               else None))"


text \<open>
  The contract as the specification words it, for comparison with the code: \<open>undefined\<close>
  exactly for a malformed definition or an unsupported value at some path, and otherwise
  a list with one entry per path.
\<close>

definition malformed_definition :: "PartitionKeyDefinition option \<Rightarrow> bool" where
  "malformed_definition pkd =
     (case pkd of
        None \<Rightarrow> True
      | Some d \<Rightarrow> (case paths d of None \<Rightarrow> True | Some ps \<Rightarrow> ps = []))"

definition definition_paths :: "PartitionKeyDefinition option \<Rightarrow> string list" where
  "definition_paths pkd =
     (case pkd of
        None \<Rightarrow> []
      | Some d \<Rightarrow> (case paths d of None \<Rightarrow> [] | Some ps \<Rightarrow> ps))"

definition claimed_extraction_contract ::
  "'x pk_imports_scheme \<Rightarrow> jsval \<Rightarrow> PartitionKeyDefinition option \<Rightarrow> bool" where
  "claimed_extraction_contract E document pkd =
     ((extractPartitionKeys E document pkd = None) =
        (malformed_definition pkd \<or>
         (\<exists>p \<in> set (definition_paths pkd). extractPartitionKey E p document = JUndefined))
      \<and> (\<forall>ks. extractPartitionKeys E document pkd = Some ks \<longrightarrow>
             length ks = length (definition_paths pkd)))"

subsection \<open>A sample instance of the imports\<close>

text \<open>
  Concrete stand-ins for the imported parts, used to run the model on examples: paths
  split at \<open>/\<close>, \<open>null\<close> and the empty object as the two literals, a serialiser for the
  values of the model, and the prototype chains of objects, arrays and \<open>Map\<close> objects
  with the properties the language standard gives them.
\<close>

fun split_slash :: "string \<Rightarrow> string \<Rightarrow> string list" where
  "split_slash cur [] = (if cur = [] then [] else [cur])"
| "split_slash cur (c # cs) =
     (if c = CHR ''/'' then (if cur = [] then [] else [cur]) @ split_slash [] cs
      else split_slash (cur @ [c]) cs)"

definition show_int :: "int \<Rightarrow> string" where
  "show_int i = (if i < 0 then CHR ''-'' # show_nat (nat (- i)) else show_nat (nat i))"

fun join_comma :: "string list \<Rightarrow> string" where
  "join_comma [] = []"
| "join_comma [s] = s"
| "join_comma (s # t # ss) = s @ '','' @ join_comma (t # ss)"

primrec stringify :: "jsval \<Rightarrow> string option" where
  "stringify JUndefined = None"
| "stringify JNull = Some ''null''"
| "stringify (JBool b) = Some (if b then ''true'' else ''false'')"
| "stringify (JNum n) = Some (show_int n)"
| "stringify (JStr s) = Some (CHR 0x22 # s @ [CHR 0x22])"
| "stringify (JArr xs) =
     Some (''['' @ join_comma (map (\<lambda>r. case r of None \<Rightarrow> ''null'' | Some s \<Rightarrow> s)
                                 (map stringify xs)) @ '']'')"
| "stringify (JObj kvs) =
     Some (''{'' @ join_comma (concat (map (\<lambda>(k, r). case r of None \<Rightarrow> []
                                             | Some s \<Rightarrow> [CHR 0x22 # k @ [CHR 0x22] @ '':'' @ s])
                                         (map (map_prod id stringify) kvs))) @ ''}'')"
| "stringify (JMap kvs) = Some ''{}''"
| "stringify (JFunction name arity) = None"
| "stringify (JBuiltin name props) = Some ''{}''"

definition builtin_functions :: "string \<Rightarrow> (string \<times> nat) list \<Rightarrow> (string \<times> jsval) list" where
  "builtin_functions owner fs = map (\<lambda>(name, arity). (name, JFunction (owner @ ''.'' @ name) arity)) fs"

definition Object_prototype :: jsval where
  "Object_prototype =
     JBuiltin ''Object.prototype''
       (builtin_functions ''Object.prototype''
          [(''constructor'', 1), (''__defineGetter__'', 2), (''__defineSetter__'', 2),
           (''hasOwnProperty'', 1), (''__lookupGetter__'', 1), (''__lookupSetter__'', 1),
           (''isPrototypeOf'', 1), (''propertyIsEnumerable'', 1), (''toString'', 0),
           (''valueOf'', 0), (''toLocaleString'', 0)]
        @ [(''__proto__'', JNull)])"

definition Array_prototype :: jsval where
  "Array_prototype =
     JBuiltin ''Array.prototype''
       ((''length'', JNum 0) #
        builtin_functions ''Array.prototype''
          [(''constructor'', 1), (''at'', 1), (''concat'', 1), (''copyWithin'', 2), (''fill'', 1),
           (''find'', 1), (''findIndex'', 1), (''findLast'', 1), (''findLastIndex'', 1),
           (''lastIndexOf'', 1), (''pop'', 0), (''push'', 1), (''reverse'', 0), (''shift'', 0),
           (''unshift'', 1), (''slice'', 2), (''sort'', 1), (''splice'', 2), (''includes'', 1),
           (''indexOf'', 1), (''join'', 1), (''keys'', 0), (''entries'', 0), (''values'', 0),
           (''forEach'', 1), (''filter'', 1), (''flat'', 0), (''flatMap'', 1), (''map'', 1),
           (''every'', 1), (''some'', 1), (''reduce'', 1), (''reduceRight'', 1),
           (''toLocaleString'', 0), (''toString'', 0), (''toReversed'', 0), (''toSorted'', 1),
           (''toSpliced'', 2), (''with'', 2)])"

definition Map_prototype :: jsval where
  "Map_prototype =
     JBuiltin ''Map.prototype''
       (builtin_functions ''Map.prototype''
          [(''constructor'', 0), (''get'', 1), (''set'', 2), (''has'', 1), (''delete'', 1),
           (''clear'', 0), (''entries'', 0), (''forEach'', 1), (''keys'', 0), (''values'', 0)])"

text \<open>
  What the first object of a chain does not own is looked up in the next one; the
  accessor \<open>__proto__\<close> of \<open>Object.prototype\<close> answers with the prototype of the value it
  is read from, the accessor \<open>size\<close> of \<open>Map.prototype\<close> with the number of entries.
\<close>

definition from_Object_prototype :: "jsval \<Rightarrow> string \<Rightarrow> jsval option" where
  "from_Object_prototype proto part =
     (if part = ''__proto__'' then Some proto else own_property Object_prototype part)"

fun sample_inherited :: "jsval \<Rightarrow> string \<Rightarrow> jsval option" where
  "sample_inherited (JObj kvs) part = from_Object_prototype Object_prototype part"
| "sample_inherited (JArr xs) part =
     (case own_property Array_prototype part of
        Some v \<Rightarrow> Some v
      | None \<Rightarrow> from_Object_prototype Array_prototype part)"
| "sample_inherited (JMap kvs) part =
     (if part = ''size'' then Some (JNum (int (length kvs)))
      else case own_property Map_prototype part of
             Some v \<Rightarrow> Some v
           | None \<Rightarrow> from_Object_prototype Map_prototype part)"
| "sample_inherited (JBuiltin name props) part =
     (if name = ''Object.prototype'' then None
      else from_Object_prototype Object_prototype part)"
| "sample_inherited v part = None"

definition sample_imports :: pk_imports where
  "sample_imports =
     \<lparr> parsePath = split_slash [],
       NullPartitionKeyLiteral = JNull,
       NonePartitionKeyLiteral = JObj [],
       DEFAULT_PARTITION_KEY_PATH = ''/_partitionKey'',
       JSON_stringify = stringify,
       inherited_property = sample_inherited \<rparr>"

section \<open>Diagnostic nodes (DiagnosticNodeInternal.js)\<close>

text \<open>
  Nodes and diagnostic contexts are objects shared by reference: a node names its
  parent, its children and its context, and every node of one tree names the same
  context.  The model keeps both kinds of object in a store addressed by references;
  \<open>next_ref\<close> is the first reference not yet handed out by \<open>new\<close>.
\<close>

datatype DiagnosticNodeType =
    CLIENT_REQUEST_NODE
  | METADATA_REQUEST_NODE
  | HTTP_REQUEST
  | BATCH_REQUEST
  | PARALLEL_QUERY_NODE
  | DEFAULT_QUERY_NODE
  | QUERY_REPAIR_NODE
  | BACKGROUND_REFRESH_THREAD
  | REQUEST_ATTEMPTS

type_synonym js_object = "(string \<times> jsval) list"

record 'l DiagnosticNodeInternal =
  node_id :: string
  nodeType :: DiagnosticNodeType
  startTimeUTCInMs :: int
  data :: js_object
  children :: "nat list"
  durationInMs :: int
  parent :: "nat option"
  diagnosticCtx :: nat
  diagnosticLevel :: 'l

record ('l, 'c) store =
  nodes :: "nat \<Rightarrow> 'l DiagnosticNodeInternal"
  ctxs :: "nat \<Rightarrow> 'c"
  next_ref :: nat

text \<open>
  What the class imports from files that are not part of the sources: the level
  comparator \<open>allowTracing\<close>, the two members of \<open>CosmosDbDiagnosticLevel\<close> the code names,
  the methods \<open>mergeDiagnostics\<close> and \<open>recordFailedAttempt\<close> of the diagnostic context
  (each updates the context it is called on), \<open>prepareURL\<close> and the name of the
  activity id header.  Levels \<open>'l\<close>, contexts \<open>'c\<close> and metadata kinds \<open>'m\<close> are left
  open.
\<close>

record ('l, 'c, 'm) diag_imports =
  allowTracing :: "'l \<Rightarrow> 'l \<Rightarrow> bool"
  level_info :: 'l
  level_debugUnsafe :: 'l
  mergeDiagnostics :: "'c \<Rightarrow> 'c \<Rightarrow> 'm \<Rightarrow> 'c"
  recordFailedAttempt :: "'c \<Rightarrow> jsval \<Rightarrow> jsval \<Rightarrow> 'c"
  prepareURL :: "jsval \<Rightarrow> jsval \<Rightarrow> jsval"
  HttpHeaders_ActivityId :: string

text \<open>\<open>obj[key]\<close> and \<open>obj[key] = v\<close> on the properties of an object.\<close>

definition get_prop :: "js_object \<Rightarrow> string \<Rightarrow> jsval" where
  "get_prop obj key = (case map_of obj key of None \<Rightarrow> JUndefined | Some v \<Rightarrow> v)"

fun alist_set :: "('k \<times> 'v) list \<Rightarrow> 'k \<Rightarrow> 'v \<Rightarrow> ('k \<times> 'v) list" where
  "alist_set [] k v = [(k, v)]"
| "alist_set ((k', v') # kvs) k v =
     (if k' = k then (k, v) # kvs else (k', v') # alist_set kvs k v)"

definition object_assign :: "js_object \<Rightarrow> js_object \<Rightarrow> js_object" where
  "object_assign target source = foldl (\<lambda>t (k, v). alist_set t k v) target source"

text \<open>\<open>v.length\<close>: of a string, an array or a function, or the own property of an object.\<close>

fun js_length :: "jsval \<Rightarrow> jsval" where
  "js_length (JStr s) = JNum (int (length s))"
| "js_length (JArr xs) = JNum (int (length xs))"
| "js_length (JFunction name arity) = JNum (int arity)"
| "js_length (JObj kvs) = get_prop kvs ''length''"
| "js_length (JBuiltin name props) = get_prop props ''length''"
| "js_length v = JUndefined"

definition calculateRequestPayloadLength :: "js_object \<Rightarrow> jsval" where
  "calculateRequestPayloadLength requestContext =
     (if truthy (get_prop requestContext ''body'') then js_length (get_prop requestContext ''body'')
      else JNum 0)"

definition sanitizeHeaders :: "jsval \<Rightarrow> jsval" where
  "sanitizeHeaders hdrs = hdrs"

text \<open>
  \<open>addLog\<close> on the data of a node; \<open>None\<close> is the \<open>TypeError\<close> of \<open>push\<close> on a \<open>log\<close>
  property that is not an array.
\<close>

definition addLog :: "js_object \<Rightarrow> jsval \<Rightarrow> js_object option" where
  "addLog d msg =
     (let d1 = (if \<not> truthy (get_prop d ''log'') then alist_set d ''log'' (JArr []) else d) in
      case get_prop d1 ''log'' of
        JArr xs \<Rightarrow> Some (alist_set d1 ''log'' (JArr (xs @ [msg])))
      | _ \<Rightarrow> None)"

text \<open>
  \<open>addData(data, msg, level = this.diagnosticLevel)\<close>: an absent \<open>msg\<close> is \<open>JUndefined\<close>, an
  absent \<open>level\<close> is \<open>None\<close>.
\<close>

definition addData ::
  "('l, 'c, 'm, 'x) diag_imports_scheme \<Rightarrow> ('l, 'c) store \<Rightarrow> nat \<Rightarrow> js_object \<Rightarrow> jsval \<Rightarrow>
   'l option \<Rightarrow> ('l, 'c) store option" where
  "addData E h this dat msg level_arg =
     (let n = nodes h this;
          level = (case level_arg of None \<Rightarrow> diagnosticLevel n | Some l \<Rightarrow> l) in
      if level \<noteq> level_info E then
        (let n1 = n\<lparr>data := object_assign (object_assign [] (data n)) dat\<rparr> in
         if truthy msg then
           (case addLog (data n1) msg of
              None \<Rightarrow> None
            | Some d \<Rightarrow> Some (h\<lparr>nodes := (nodes h)(this := n1\<lparr>data := d\<rparr>)\<rparr>))
         else Some (h\<lparr>nodes := (nodes h)(this := n1)\<rparr>))
      else Some h)"

text \<open>
  \<open>recordFailedNetworkCall\<close>; \<open>now\<close> is what \<open>getCurrentTimestampInMs()\<close> returns when it
  is called.
\<close>

definition failed_attempt_record ::
  "('l, 'c, 'm, 'x) diag_imports_scheme \<Rightarrow> int \<Rightarrow> js_object \<Rightarrow> jsval \<Rightarrow> jsval \<Rightarrow> js_object \<Rightarrow>
   int \<Rightarrow> jsval" where
  "failed_attempt_record E startTime requestContext statusCode substatusCode responseHeaders now =
     JObj [(''activityId'', get_prop responseHeaders (HttpHeaders_ActivityId E)),
           (''startTimeUTCInMs'', JNum startTime),
           (''durationInMs'', JNum (now - startTime)),
           (''statusCode'', statusCode),
           (''subStatusCode'', substatusCode),
           (''requestPayloadLengthInBytes'', calculateRequestPayloadLength requestContext),
           (''responsePayloadLengthInBytes'', JNum 0),
           (''operationType'', get_prop requestContext ''operationType''),
           (''resourceType'', get_prop requestContext ''resourceType'')]"

definition base_requestData :: "js_object \<Rightarrow> js_object" where
  "base_requestData requestContext =
     [(''OperationType'', get_prop requestContext ''operationType''),
      (''resourceType'', get_prop requestContext ''resourceType''),
      (''requestPayloadLengthInBytes'', calculateRequestPayloadLength requestContext)]"

definition captured_requestData ::
  "('l, 'c, 'm, 'x) diag_imports_scheme \<Rightarrow> js_object \<Rightarrow> js_object" where
  "captured_requestData E requestContext =
     [(''headers'', sanitizeHeaders (get_prop requestContext ''headers'')),
      (''requestBody'', get_prop requestContext ''body''),
      (''url'', prepareURL E (get_prop requestContext ''endpoint'') (get_prop requestContext ''path''))]"

definition recordFailedNetworkCall ::
  "('l, 'c, 'm, 'x) diag_imports_scheme \<Rightarrow> ('l, 'c) store \<Rightarrow> nat \<Rightarrow> int \<Rightarrow> js_object \<Rightarrow> jsval \<Rightarrow>
   jsval \<Rightarrow> jsval \<Rightarrow> js_object \<Rightarrow> int \<Rightarrow> ('l, 'c) store option" where
  "recordFailedNetworkCall E h this startTime requestContext retryAttemptNumber statusCode
      substatusCode responseHeaders now =
     (case addData E h this [(''failedAttempty'', JBool True)] JUndefined None of
        None \<Rightarrow> None
      | Some h1 \<Rightarrow>
          (let c = diagnosticCtx (nodes h1 this);
               h2 = h1\<lparr>ctxs := (ctxs h1)(c := recordFailedAttempt E (ctxs h1 c)
                      (failed_attempt_record E startTime requestContext statusCode substatusCode
                         responseHeaders now)
                      retryAttemptNumber)\<rparr>;
               requestData = base_requestData requestContext;
               requestData' =
                 (if allowTracing E (level_debugUnsafe E) (diagnosticLevel (nodes h2 this))
                  then object_assign (object_assign [] requestData) (captured_requestData E requestContext)
                  else requestData)
           in addData E h2 this
                [(''failedAttempty'', JBool True), (''requestData'', JObj requestData')]
                JUndefined None))"

text \<open>\<open>addChildNode\<close> returns \<open>child\<close>; the result here is the store it leaves.\<close>

definition addChildNode ::
  "('l, 'c, 'm, 'x) diag_imports_scheme \<Rightarrow> ('l, 'c) store \<Rightarrow> nat \<Rightarrow> nat \<Rightarrow> 'l \<Rightarrow> 'm \<Rightarrow>
   nat \<times> ('l, 'c) store" where
  "addChildNode E h this child level metadataType =
     (let c = diagnosticCtx (nodes h this);
          h1 = h\<lparr>ctxs := (ctxs h)(c := mergeDiagnostics E (ctxs h c)
                  (ctxs h (diagnosticCtx (nodes h child))) metadataType)\<rparr>
      in if allowTracing E level (diagnosticLevel (nodes h1 this)) then
           (let h2 = h1\<lparr>nodes := (nodes h1)(child := (nodes h1 child)\<lparr>parent := Some this\<rparr>)\<rparr>;
                h3 = h2\<lparr>nodes := (nodes h2)(this :=
                        (nodes h2 this)\<lparr>children := children (nodes h2 this) @ [child]\<rparr>)\<rparr>
            in (child, h3))
         else (child, h1))"

text \<open>
  The constructor, with every argument given (\<open>new_id\<close> is the identifier \<open>v4()\<close>
  draws), and \<open>initializeChildNode(type, level, data = {})\<close>; an absent \<open>data\<close> is \<open>None\<close>.
\<close>

definition new_DiagnosticNodeInternal ::
  "'l \<Rightarrow> DiagnosticNodeType \<Rightarrow> nat option \<Rightarrow> js_object \<Rightarrow> int \<Rightarrow> nat \<Rightarrow> string \<Rightarrow>
   'l DiagnosticNodeInternal" where
  "new_DiagnosticNodeInternal level type par dat startTime ctx new_id =
     \<lparr> node_id = new_id, nodeType = type, startTimeUTCInMs = startTime, data = dat,
       children = [], durationInMs = 0, parent = par, diagnosticCtx = ctx,
       diagnosticLevel = level \<rparr>"

definition initializeChildNode ::
  "('l, 'c, 'm, 'x) diag_imports_scheme \<Rightarrow> ('l, 'c) store \<Rightarrow> nat \<Rightarrow> DiagnosticNodeType \<Rightarrow> 'l \<Rightarrow>
   js_object option \<Rightarrow> int \<Rightarrow> string \<Rightarrow> nat \<times> ('l, 'c) store" where
  "initializeChildNode E h this type level data_arg now new_id =
     (let dat = (case data_arg of None \<Rightarrow> [] | Some d \<Rightarrow> d) in
      if allowTracing E level (diagnosticLevel (nodes h this)) then
        (let child = next_ref h;
             h1 = h\<lparr>nodes := (nodes h)(child :=
                     new_DiagnosticNodeInternal (diagnosticLevel (nodes h this)) type (Some this) dat
                       now (diagnosticCtx (nodes h this)) new_id),
                   next_ref := Suc (next_ref h)\<rparr>;
             h2 = h1\<lparr>nodes := (nodes h1)(this :=
                     (nodes h1 this)\<lparr>children := children (nodes h1 this) @ [child]\<rparr>)\<rparr>
         in (child, h2))
      else (this, h))"

text \<open>
  The node's data holds captured headers, a captured request body or a captured URL
  under \<open>requestData\<close>.
\<close>

definition captures_payload :: "('l, 'c, 'z) store_scheme \<Rightarrow> nat \<Rightarrow> bool" where
  "captures_payload h this =
     (case get_prop (data (nodes h this)) ''requestData'' of
        JObj requestData \<Rightarrow>
          map_of requestData ''headers'' \<noteq> None \<or> map_of requestData ''requestBody'' \<noteq> None \<or>
          map_of requestData ''url'' \<noteq> None
      | _ \<Rightarrow> False)"

subsection \<open>A sample instance of the imports\<close>

text \<open>
  Three levels, of which a requested level is traced when it does not exceed the
  configured one, and a context that keeps lists of what it is told.
\<close>

datatype sample_level = Info | Debug | DebugUnsafe

fun level_index :: "sample_level \<Rightarrow> nat" where
  "level_index Info = 0"
| "level_index Debug = 1"
| "level_index DebugUnsafe = 2"

record sample_context =
  gatewayStatistics :: "jsval list"
  metadataLookups :: "(string \<times> jsval) list"
  failedAttempts :: "(jsval \<times> jsval) list"

definition sample_diag_imports :: "(sample_level, sample_context, string) diag_imports" where
  "sample_diag_imports =
     \<lparr> allowTracing = (\<lambda>levelToCheck levelSet. level_index levelToCheck \<le> level_index levelSet),
       level_info = Info,
       level_debugUnsafe = DebugUnsafe,
       mergeDiagnostics = (\<lambda>this child kind.
          this\<lparr>metadataLookups := metadataLookups this @ map (Pair kind) (gatewayStatistics child)
                                      @ metadataLookups child,
               failedAttempts := failedAttempts this @ failedAttempts child\<rparr>),
       recordFailedAttempt = (\<lambda>this attempt n.
          this\<lparr>failedAttempts := failedAttempts this @ [(n, attempt)]\<rparr>),
       prepareURL = (\<lambda>endpoint path. case (endpoint, path) of
                        (JStr e, JStr p) \<Rightarrow> JStr (e @ p) | _ \<Rightarrow> JUndefined),
       HttpHeaders_ActivityId = ''x-ms-activity-id'' \<rparr>"

definition empty_context :: sample_context where
  "empty_context = \<lparr> gatewayStatistics = [], metadataLookups = [], failedAttempts = [] \<rparr>"

definition lookup_context :: sample_context where
  "lookup_context =
     \<lparr> gatewayStatistics = [JObj [(''statusCode'', JNum 200)]], metadataLookups = [],
       failedAttempts = [] \<rparr>"

text \<open>A store holding one root node at reference 0 and one context at reference 0.\<close>

definition sample_store :: "sample_level \<Rightarrow> (sample_level, sample_context) store" where
  "sample_store level =
     \<lparr> nodes = (\<lambda>r. new_DiagnosticNodeInternal level CLIENT_REQUEST_NODE None [] 0 0 ''root''),
       ctxs = (\<lambda>r. empty_context),
       next_ref = 1 \<rparr>"

text \<open>
  A store with the root node at reference 0 and a metadata request node at reference 1,
  each with a context of its own (references 0 and 1).
\<close>

definition two_node_store :: "sample_level \<Rightarrow> (sample_level, sample_context) store" where
  "two_node_store level =
     \<lparr> nodes = (\<lambda>r. if r = 1
                     then new_DiagnosticNodeInternal level METADATA_REQUEST_NODE None [] 0 1 ''lookup''
                     else new_DiagnosticNodeInternal level CLIENT_REQUEST_NODE None [] 0 0 ''root''),
       ctxs = (\<lambda>r. if r = 1 then lookup_context else empty_context),
       next_ref = 2 \<rparr>"

definition sample_requestContext :: js_object where
  "sample_requestContext =
     [(''operationType'', JStr ''query''), (''resourceType'', JStr ''docs''),
      (''body'', JStr ''SELECT''), (''headers'', JObj [(''authorization'', JStr ''secret'')]),
      (''endpoint'', JStr ''https://host''), (''path'', JStr ''/dbs/d/colls/c'')]"

section \<open>The Group-By endpoint component (GroupByEndpointComponent.js)\<close>

text \<open>
  A row pulled from the inner execution context carries the group-by projection and a
  payload keyed by aggregate alias; a pull answers with a possibly absent result
  (\<open>None\<close>: a result that \<open>if (result)\<close> skips) and headers, or throws.
\<close>

record row =
  groupByItems :: jsval
  payload :: js_object

record ('r, 'h) response =
  result :: "'r option"
  headers :: 'h

record js_error =
  code :: jsval
  fetchedResults :: jsval
  message :: string

record QueryInfo =
  groupByAliasToAggregateType :: js_object

text \<open>
  The inner execution context is known by its interface only: \<open>hasMoreResults\<close> observes
  its state \<open>'ic\<close>, \<open>nextItem\<close> answers or throws and moves to a next state.  The
  other imports (\<open>hashObject\<close>, \<open>emptyGroup\<close>, the aggregators with their methods
  \<open>aggregate\<close> and \<open>getResult\<close>, \<open>extractAggregateResult\<close>, the header utilities and the
  error code) come from files that are not part of the sources; they are parameters,
  taken as total functions.  Group identities \<open>'g\<close>, aggregators \<open>'a\<close> and headers \<open>'h\<close>
  are left open.
\<close>

record ('ic, 'g, 'a, 'h) gb_imports =
  inner_hasMoreResults :: "'ic \<Rightarrow> bool"
  inner_nextItem :: "'ic \<Rightarrow> (js_error + (row, 'h) response) \<times> 'ic"
  hashObject :: "jsval \<Rightarrow> 'g"
  emptyGroup :: 'g
  createAggregator :: "jsval \<Rightarrow> 'a"
  aggregate :: "'a \<Rightarrow> jsval \<Rightarrow> 'a"
  getResult :: "'a \<Rightarrow> jsval"
  extractAggregateResult :: "jsval \<Rightarrow> jsval"
  getInitialHeader :: 'h
  mergeHeaders :: "'h \<Rightarrow> 'h \<Rightarrow> 'h"
  RUCapPerOperationExceededErrorCode :: jsval

text \<open>
  The component.  A \<open>Map\<close> is the list of its entries in insertion order, the result
  array a list with \<open>push\<close> and \<open>pop\<close> at its end.
\<close>

record ('ic, 'g, 'a) GroupByEndpointComponent =
  executionContext :: 'ic
  queryInfo :: QueryInfo
  groupings :: "('g \<times> (string \<times> 'a) list) list"
  aggregateResultArray :: "js_object list"
  completed :: bool

definition new_GroupByEndpointComponent ::
  "'ic \<Rightarrow> QueryInfo \<Rightarrow> ('ic, 'g, 'a) GroupByEndpointComponent" where
  "new_GroupByEndpointComponent ec qi =
     \<lparr> executionContext = ec, queryInfo = qi, groupings = [], aggregateResultArray = [],
       completed = False \<rparr>"

definition object_keys :: "js_object \<Rightarrow> string list" where
  "object_keys obj = map fst obj"

text \<open>\<open>new Map().set("item2", null)\<close>\<close>

definition null_wrapper :: jsval where
  "null_wrapper = JMap [(''item2'', JNull)]"

definition TypeError :: js_error where
  "TypeError = \<lparr> code = JUndefined, fetchedResults = JUndefined, message = ''TypeError'' \<rparr>"

text \<open>
  The branch for a grouping seen before, over the keys of the payload.  A key with no
  aggregator in the grouping makes \<open>aggregators.get(key).aggregate\<close> throw a \<open>TypeError\<close>;
  the aggregators fed before it keep their updates.
\<close>

fun aggregate_existing ::
  "('ic, 'g, 'a, 'h, 'x) gb_imports_scheme \<Rightarrow> js_object \<Rightarrow> (string \<times> 'a) list \<Rightarrow> string list \<Rightarrow>
   js_error option \<times> (string \<times> 'a) list" where
  "aggregate_existing E pl aggregators [] = (None, aggregators)"
| "aggregate_existing E pl aggregators (key # keys) =
     (let effectiveGroupByValue = (if truthy (get_prop pl key) then get_prop pl key else null_wrapper);
          aggregateResult = extractAggregateResult E effectiveGroupByValue
      in case map_of aggregators key of
           None \<Rightarrow> (Some TypeError, aggregators)
         | Some aggregator \<Rightarrow>
             aggregate_existing E pl
               (alist_set aggregators key (aggregate E aggregator aggregateResult)) keys)"

text \<open>The branch for a grouping seen for the first time.\<close>

definition seed_aggregator ::
  "('ic, 'g, 'a, 'h, 'x) gb_imports_scheme \<Rightarrow> QueryInfo \<Rightarrow> js_object \<Rightarrow> (string \<times> 'a) list \<Rightarrow>
   string \<Rightarrow> (string \<times> 'a) list" where
  "seed_aggregator E qi pl grouping key =
     (let aggregateType = get_prop (groupByAliasToAggregateType qi) key;
          aggregator = createAggregator E aggregateType
      in alist_set grouping key
           (if truthy aggregateType
            then aggregate E aggregator (extractAggregateResult E (get_prop pl key))
            else aggregate E aggregator (get_prop pl key)))"

definition seed_grouping ::
  "('ic, 'g, 'a, 'h, 'x) gb_imports_scheme \<Rightarrow> QueryInfo \<Rightarrow> js_object \<Rightarrow> (string \<times> 'a) list" where
  "seed_grouping E qi pl = foldl (seed_aggregator E qi pl) [] (object_keys pl)"

definition group_of :: "('ic, 'g, 'a, 'h, 'x) gb_imports_scheme \<Rightarrow> row \<Rightarrow> 'g" where
  "group_of E r =
     (if truthy (groupByItems r) then hashObject E (groupByItems r) else emptyGroup E)"

text \<open>The body of \<open>if (result) { ... }\<close> for one row.\<close>

definition process_row ::
  "('ic, 'g, 'a, 'h, 'x) gb_imports_scheme \<Rightarrow> QueryInfo \<Rightarrow> ('g \<times> (string \<times> 'a) list) list \<Rightarrow> row \<Rightarrow>
   js_error option \<times> ('g \<times> (string \<times> 'a) list) list" where
  "process_row E qi gs r =
     (let group = group_of E r in
      case map_of gs group of
        Some aggregators \<Rightarrow>
          (case aggregate_existing E (payload r) aggregators (object_keys (payload r)) of
             (err, aggregators') \<Rightarrow> (err, alist_set gs group aggregators'))
      | None \<Rightarrow> (None, alist_set gs group (seed_grouping E qi (payload r))))"

text \<open>
  The \<open>while (this.executionContext.hasMoreResults())\<close> loop.  It ends with the merged
  headers, or with the error thrown inside it; \<open>None\<close> is a loop that never ends.
\<close>

partial_function (option) drain_inner ::
  "('ic, 'g, 'a, 'h, 'x) gb_imports_scheme \<Rightarrow> QueryInfo \<Rightarrow> 'ic \<Rightarrow> ('g \<times> (string \<times> 'a) list) list \<Rightarrow>
   'h \<Rightarrow> ((js_error + 'h) \<times> 'ic \<times> ('g \<times> (string \<times> 'a) list) list) option" where
  "drain_inner E qi ic gs aggregateHeaders =
     (if inner_hasMoreResults E ic then
        (case inner_nextItem E ic of
           (Inl err, ic') \<Rightarrow> Some (Inl err, ic', gs)
         | (Inr r, ic') \<Rightarrow>
             (case result r of
                None \<Rightarrow> drain_inner E qi ic' gs (mergeHeaders E aggregateHeaders (headers r))
              | Some rw \<Rightarrow>
                  (case process_row E qi gs rw of
                     (Some err, gs') \<Rightarrow> Some (Inl err, ic', gs')
                   | (None, gs') \<Rightarrow>
                       drain_inner E qi ic' gs' (mergeHeaders E aggregateHeaders (headers r)))))
      else Some (Inr aggregateHeaders, ic, gs))"

text \<open>The \<open>catch\<close> block, and the finalisation of one grouping into a result row.\<close>

definition catch_handler ::
  "('ic, 'g, 'a, 'h, 'x) gb_imports_scheme \<Rightarrow> js_error \<Rightarrow> js_error" where
  "catch_handler E err =
     (if code err = RUCapPerOperationExceededErrorCode E then err\<lparr>fetchedResults := JUndefined\<rparr>
      else err)"

definition group_result ::
  "('ic, 'g, 'a, 'h, 'x) gb_imports_scheme \<Rightarrow> (string \<times> 'a) list \<Rightarrow> js_object" where
  "group_result E grouping =
     foldl (\<lambda>groupResult (aggregateKey, aggregator).
              alist_set groupResult aggregateKey (getResult E aggregator)) [] grouping"

definition array_pop :: "'e list \<Rightarrow> 'e option \<times> 'e list" where
  "array_pop xs = (if xs = [] then (None, []) else (Some (last xs), butlast xs))"

text \<open>
  \<open>nextItem\<close>: \<open>Inl\<close> is the error it throws, \<open>Inr\<close> the response it returns, each with
  the component as the call leaves it.
\<close>

definition nextItem ::
  "('ic, 'g, 'a, 'h, 'x) gb_imports_scheme \<Rightarrow> ('ic, 'g, 'a) GroupByEndpointComponent \<Rightarrow>
   ((js_error + (js_object, 'h) response) \<times> ('ic, 'g, 'a) GroupByEndpointComponent) option" where
  "nextItem E c =
     (if length (aggregateResultArray c) > 0 then
        (case array_pop (aggregateResultArray c) of
           (r, arr) \<Rightarrow>
             Some (Inr \<lparr>result = r, headers = getInitialHeader E\<rparr>, c\<lparr>aggregateResultArray := arr\<rparr>))
      else if completed c then Some (Inr \<lparr>result = None, headers = getInitialHeader E\<rparr>, c)
      else
        (case drain_inner E (queryInfo c) (executionContext c) (groupings c) (getInitialHeader E) of
           None \<Rightarrow> None
         | Some (Inl err, ic', gs') \<Rightarrow>
             Some (Inl (catch_handler E err), c\<lparr>executionContext := ic', groupings := gs'\<rparr>)
         | Some (Inr aggregateHeaders, ic', gs') \<Rightarrow>
             (case array_pop (aggregateResultArray c @ map (\<lambda>(g, grouping). group_result E grouping) gs') of
                (r, arr) \<Rightarrow>
                  Some (Inr \<lparr>result = r, headers = aggregateHeaders\<rparr>,
                        c\<lparr>executionContext := ic', groupings := gs', aggregateResultArray := arr,
                          completed := True\<rparr>))))"

definition hasMoreResults ::
  "('ic, 'g, 'a, 'h, 'x) gb_imports_scheme \<Rightarrow> ('ic, 'g, 'a) GroupByEndpointComponent \<Rightarrow> bool" where
  "hasMoreResults E c =
     (inner_hasMoreResults E (executionContext c) \<or> length (aggregateResultArray c) > 0)"

subsection \<open>Runs of the component\<close>

text \<open>
  The loop body iterated over the rows of a run, up to the first error; the inner
  execution context answering a given list of pulls and then reporting that it has no
  more results, or throwing at the pull after them; the rows among the answers; and a
  caller that calls \<open>nextItem\<close> \<open>n\<close> times and collects the results that are not
  \<open>undefined\<close> (\<open>None\<close> when a call throws or does not return).
\<close>

fun process_rows ::
  "('ic, 'g, 'a, 'h, 'x) gb_imports_scheme \<Rightarrow> QueryInfo \<Rightarrow> ('g \<times> (string \<times> 'a) list) list \<Rightarrow>
   row list \<Rightarrow> js_error option \<times> ('g \<times> (string \<times> 'a) list) list" where
  "process_rows E qi gs [] = (None, gs)"
| "process_rows E qi gs (r # rs) =
     (case process_row E qi gs r of
        (Some err, gs') \<Rightarrow> (Some err, gs')
      | (None, gs') \<Rightarrow> process_rows E qi gs' rs)"

fun delivers ::
  "('ic, 'g, 'a, 'h, 'x) gb_imports_scheme \<Rightarrow> 'ic \<Rightarrow> (row, 'h) response list \<Rightarrow> 'ic \<Rightarrow> bool" where
  "delivers E ic [] ic' = (\<not> inner_hasMoreResults E ic \<and> ic' = ic)"
| "delivers E ic (r # rs) ic' =
     (inner_hasMoreResults E ic \<and>
      (case inner_nextItem E ic of
         (Inl err, ic1) \<Rightarrow> False
       | (Inr r', ic1) \<Rightarrow> r' = r \<and> delivers E ic1 rs ic'))"

fun delivers_then_throws ::
  "('ic, 'g, 'a, 'h, 'x) gb_imports_scheme \<Rightarrow> 'ic \<Rightarrow> (row, 'h) response list \<Rightarrow> js_error \<Rightarrow> 'ic \<Rightarrow>
   bool" where
  "delivers_then_throws E ic [] err ic' =
     (inner_hasMoreResults E ic \<and> inner_nextItem E ic = (Inl err, ic'))"
| "delivers_then_throws E ic (r # rs) err ic' =
     (inner_hasMoreResults E ic \<and>
      (case inner_nextItem E ic of
         (Inl err', ic1) \<Rightarrow> False
       | (Inr r', ic1) \<Rightarrow> r' = r \<and> delivers_then_throws E ic1 rs err ic'))"

definition rows_of :: "(row, 'h) response list \<Rightarrow> row list" where
  "rows_of evs = List.map_filter result evs"

fun emit_n ::
  "nat \<Rightarrow> ('ic, 'g, 'a, 'h, 'x) gb_imports_scheme \<Rightarrow> ('ic, 'g, 'a) GroupByEndpointComponent \<Rightarrow>
   (js_object list \<times> ('ic, 'g, 'a) GroupByEndpointComponent) option" where
  "emit_n 0 E c = Some ([], c)"
| "emit_n (Suc n) E c =
     (case nextItem E c of
        Some (Inr r, c') \<Rightarrow>
          (case emit_n n E c' of
             Some (rs, c'') \<Rightarrow> Some ((case result r of None \<Rightarrow> [] | Some x \<Rightarrow> [x]) @ rs, c'')
           | None \<Rightarrow> None)
      | _ \<Rightarrow> None)"

subsection \<open>The groupings a run builds, in closed form\<close>

text \<open>
  The values of a list in the order of their first occurrences: the order in which a
  \<open>Map\<close> keeps keys that are set again and again.
\<close>

definition first_occurrences :: "'a list \<Rightarrow> 'a list" where
  "first_occurrences xs = rev (remdups (rev xs))"

text \<open>
  \<open>payload[key] ? payload[key] : new Map().set("item2", null)\<close>, and what the rows of a
  group feed to the aggregator of the alias \<open>k\<close>: the row that opens the group (lines
  56 to 68 of the source) and a row of a group seen before (lines 42 to 49), once for
  every key of its payload that is \<open>k\<close>.
\<close>

definition uniform_shape :: "jsval \<Rightarrow> jsval" where
  "uniform_shape v = (if truthy v then v else null_wrapper)"

definition seed_feed ::
  "('ic, 'g, 'a, 'h, 'x) gb_imports_scheme \<Rightarrow> QueryInfo \<Rightarrow> row \<Rightarrow> string \<Rightarrow> jsval" where
  "seed_feed E qi r k =
     (if truthy (get_prop (groupByAliasToAggregateType qi) k)
      then extractAggregateResult E (get_prop (payload r) k) else get_prop (payload r) k)"

definition later_feeds ::
  "('ic, 'g, 'a, 'h, 'x) gb_imports_scheme \<Rightarrow> row \<Rightarrow> string \<Rightarrow> jsval list" where
  "later_feeds E r k =
     map (\<lambda>key. extractAggregateResult E (uniform_shape (get_prop (payload r) key)))
       (filter (\<lambda>key. key = k) (object_keys (payload r)))"

text \<open>
  The grouping that the rows \<open>rs\<close> of one group build, and the \<open>Map\<close> of groupings that
  the rows of a run build: one aggregator per alias of the row that opened the group,
  fed by that row and then by the later rows of the group, in order.
\<close>

definition built_grouping ::
  "('ic, 'g, 'a, 'h, 'x) gb_imports_scheme \<Rightarrow> QueryInfo \<Rightarrow> row list \<Rightarrow> (string \<times> 'a) list" where
  "built_grouping E qi rs =
     (case rs of
        [] \<Rightarrow> []
      | r0 # rest \<Rightarrow>
          map (\<lambda>k. (k, foldl (aggregate E)
                         (createAggregator E (get_prop (groupByAliasToAggregateType qi) k))
                         (seed_feed E qi r0 k # concat (map (\<lambda>r. later_feeds E r k) rest))))
            (first_occurrences (object_keys (payload r0))))"



subsection \<open>The rows that the specification describes\<close>








subsection \<open>A sample instance of the imports\<close>

text \<open>
  An inner execution context that plays back a script of answers and errors, the
  serialisation of the projection as its hash, a summing and a last-value aggregator,
  and request charges as headers.
\<close>

datatype sample_aggregator = SumAggregator int | StaticValueAggregator jsval

fun sample_aggregate :: "sample_aggregator \<Rightarrow> jsval \<Rightarrow> sample_aggregator" where
  "sample_aggregate (SumAggregator s) (JNum n) = SumAggregator (s + n)"
| "sample_aggregate (SumAggregator s) v = SumAggregator s"
| "sample_aggregate (StaticValueAggregator old) v = StaticValueAggregator v"

fun sample_getResult :: "sample_aggregator \<Rightarrow> jsval" where
  "sample_getResult (SumAggregator s) = JNum s"
| "sample_getResult (StaticValueAggregator v) = v"

fun sample_extractAggregateResult :: "jsval \<Rightarrow> jsval" where
  "sample_extractAggregateResult (JObj kvs) =
     (if kvs = [] then JNull
      else if truthy (get_prop kvs ''item2'') then get_prop kvs ''item2'' else get_prop kvs ''item'')"
| "sample_extractAggregateResult v = JNull"

type_synonym script = "(js_error + (row, nat) response) list"

fun script_nextItem :: "script \<Rightarrow> (js_error + (row, nat) response) \<times> script" where
  "script_nextItem [] = (Inr \<lparr>result = None, headers = 0\<rparr>, [])"
| "script_nextItem (e # es) = (e, es)"

definition sample_gb_imports :: "(script, string, sample_aggregator, nat) gb_imports" where
  "sample_gb_imports =
     \<lparr> inner_hasMoreResults = (\<lambda>ic. ic \<noteq> []),
       inner_nextItem = script_nextItem,
       hashObject = (\<lambda>v. case stringify v of None \<Rightarrow> ''undefined'' | Some s \<Rightarrow> s),
       emptyGroup = ''emptyGroup'',
       createAggregator =
         (\<lambda>t. if t = JStr ''Sum'' then SumAggregator 0 else StaticValueAggregator JUndefined),
       aggregate = sample_aggregate,
       getResult = sample_getResult,
       extractAggregateResult = sample_extractAggregateResult,
       getInitialHeader = 0,
       mergeHeaders = (+),
       RUCapPerOperationExceededErrorCode = JStr ''OPERATION_RU_LIMIT_EXCEEDED'' \<rparr>"

text \<open>
  The same, with aggregators that record every value the component hands to
  \<open>extractAggregateResult\<close> and on to \<open>aggregate\<close>.
\<close>

definition recording_imports :: "(script, string, jsval list, nat) gb_imports" where
  "recording_imports =
     \<lparr> inner_hasMoreResults = (\<lambda>ic. ic \<noteq> []),
       inner_nextItem = script_nextItem,
       hashObject = (\<lambda>v. case stringify v of None \<Rightarrow> ''undefined'' | Some s \<Rightarrow> s),
       emptyGroup = ''emptyGroup'',
       createAggregator = (\<lambda>t. []),
       aggregate = (\<lambda>received v. received @ [v]),
       getResult = JArr,
       extractAggregateResult = (\<lambda>v. v),
       getInitialHeader = 0,
       mergeHeaders = (+),
       RUCapPerOperationExceededErrorCode = JStr ''OPERATION_RU_LIMIT_EXCEEDED'' \<rparr>"

definition sample_row :: "string \<Rightarrow> int \<Rightarrow> row" where
  "sample_row k n =
     \<lparr> groupByItems = JArr [JObj [(''item'', JStr k)]],
       payload = [(''sum'', JObj [(''item'', JNum n)])] \<rparr>"

definition row_with_null_field :: row where
  "row_with_null_field =
     \<lparr> groupByItems = JArr [JObj [(''item'', JStr ''A'')]], payload = [(''sum'', JNull)] \<rparr>"

definition sample_queryInfo :: QueryInfo where
  "sample_queryInfo = \<lparr> groupByAliasToAggregateType = [(''sum'', JStr ''Sum'')] \<rparr>"

text \<open>The same three rows, delivered in one page and spread over three pages.\<close>

definition one_page :: "(row, nat) response list" where
  "one_page =
     [\<lparr>result = Some (sample_row ''A'' 3), headers = 5\<rparr>,
      \<lparr>result = Some (sample_row ''A'' 4), headers = 0\<rparr>,
      \<lparr>result = Some (sample_row ''B'' 10), headers = 0\<rparr>]"

definition three_pages :: "(row, nat) response list" where
  "three_pages =
     [\<lparr>result = Some (sample_row ''A'' 3), headers = 2\<rparr>,
      \<lparr>result = None, headers = 2\<rparr>,
      \<lparr>result = Some (sample_row ''A'' 4), headers = 2\<rparr>,
      \<lparr>result = Some (sample_row ''B'' 10), headers = 2\<rparr>,
      \<lparr>result = None, headers = 1\<rparr>]"

definition exhausted_component :: "(script, string, sample_aggregator) GroupByEndpointComponent" where
  "exhausted_component =
     \<lparr> executionContext = [], queryInfo = sample_queryInfo,
       groupings = [(''[{\"item\":\"A\"}]'', [(''sum'', SumAggregator 7)])],
       aggregateResultArray = [], completed = True \<rparr>"

definition ru_cap_error :: js_error where
  "ru_cap_error =
     \<lparr> code = JStr ''OPERATION_RU_LIMIT_EXCEEDED'',
       fetchedResults = JArr [JObj [(''id'', JStr ''doc1'')]],
       message = ''Request Unit limit per Operation call exceeded'' \<rparr>"

definition throttled_error :: js_error where
  "throttled_error =
     \<lparr> code = JNum 429, fetchedResults = JUndefined, message = ''Too many requests'' \<rparr>"



section \<open>Properties of partition key extraction\<close>

lemma foldl_forEach_callback:
  "\<forall>p \<in> set ps. extractPartitionKey E p document \<noteq> JUndefined \<Longrightarrow>
   foldl (forEach_callback E document) acc ps =
     acc @ map (\<lambda>p. extractPartitionKey E p document) ps"
  by (induction ps arbitrary: acc) (simp_all add: forEach_callback_def Let_def)


lemma sample_lookups:
  "lookup_property sample_imports (JObj [(''tenant'', JStr ''t1''), (''user'', JNum 5)]) ''tenant'' =
     Some (JStr ''t1'')"
  "lookup_property sample_imports (JObj [(''tenant'', JStr ''t1''), (''user'', JNum 5)]) ''user'' =
     Some (JNum 5)"
  "lookup_property sample_imports (JObj [(''tenant'', JStr ''t1''), (''user'', JNum 5)]) ''session'' =
     None"
  "lookup_property sample_imports (JObj [(''tenant'', JStr ''t1''), (''user'', JNum 5)]) ''constructor'' =
     Some (JFunction ''Object.prototype.constructor'' 1)"
  by (simp_all add: lookup_property_def sample_imports_def from_Object_prototype_def
        Object_prototype_def builtin_functions_def)


text \<open>
  A segment that the document inherits is not missing: \<open>constructor\<close> is found on the
  prototype chain, the function found there is not a supported value, and the entry is
  skipped.
\<close>

lemma inherited_segment_is_found:
  "extractPartitionKey sample_imports ''/constructor''
     (JObj [(''tenant'', JStr ''t1''), (''user'', JNum 5)]) = JUndefined \<and>
   extractPartitionKeys sample_imports (JObj [(''tenant'', JStr ''t1''), (''user'', JNum 5)])
       (Some \<lparr>paths = Some [''/tenant'', ''/user'', ''/constructor''], systemKey = None\<rparr>) =
     Some [JStr ''t1'', JNum 5]"
proof -
  have p: "parsePath sample_imports ''/tenant'' = [''tenant'']"
    "parsePath sample_imports ''/user'' = [''user'']"
    "parsePath sample_imports ''/constructor'' = [''constructor'']"
    by (simp_all add: sample_imports_def)
  have lit: "NullPartitionKeyLiteral sample_imports = JNull"
    "NonePartitionKeyLiteral sample_imports = JObj []"
    "DEFAULT_PARTITION_KEY_PATH sample_imports = ''/_partitionKey''"
    "JSON_stringify sample_imports = stringify"
    by (simp_all add: sample_imports_def)
  have e: "extractPartitionKey sample_imports ''/tenant''
             (JObj [(''tenant'', JStr ''t1''), (''user'', JNum 5)]) = JStr ''t1''"
    "extractPartitionKey sample_imports ''/user''
             (JObj [(''tenant'', JStr ''t1''), (''user'', JNum 5)]) = JNum 5"
    "extractPartitionKey sample_imports ''/constructor''
             (JObj [(''tenant'', JStr ''t1''), (''user'', JNum 5)]) = JUndefined"
    by (simp_all add: extractPartitionKey_def p sample_lookups lit)
  then show ?thesis
    by (simp add: extractPartitionKeys_def forEach_callback_def lit)
qed

text \<open>
  C2, as the code has it.  For a malformed definition (missing, without \<open>paths\<close>, or
  with an empty path list) \<open>extractPartitionKeys\<close> returns \<open>undefined\<close>; it gets there
  without a call that could throw.  For a well-formed
  definition whose \<open>systemKey\<close> is \<open>true\<close> it returns the empty list, whatever the number
  of paths.  For a well-formed definition whose \<open>systemKey\<close> is not \<open>true\<close> and a document
  in which no path meets a value of an unsupported type, it returns the extracted
  values, one entry per path and in the order of the paths.
\<close>

theorem extractPartitionKeys_amended:
  "(malformed_definition pkd \<longrightarrow> extractPartitionKeys E document pkd = None) \<and>
   (\<not> malformed_definition pkd \<and> pkd = Some d \<and> systemKey d = Some True \<longrightarrow>
      extractPartitionKeys E document pkd = Some []) \<and>
   (\<not> malformed_definition pkd \<and> pkd = Some d \<and> systemKey d \<noteq> Some True \<and>
    (\<forall>p \<in> set (definition_paths pkd). extractPartitionKey E p document \<noteq> JUndefined) \<longrightarrow>
      extractPartitionKeys E document pkd =
        Some (map (\<lambda>p. extractPartitionKey E p document) (definition_paths pkd)))"
proof (intro conjI impI)
  assume "malformed_definition pkd"
  then show "extractPartitionKeys E document pkd = None"
    by (auto simp: malformed_definition_def extractPartitionKeys_def split: option.splits)
next
  assume "\<not> malformed_definition pkd \<and> pkd = Some d \<and> systemKey d = Some True"
  then show "extractPartitionKeys E document pkd = Some []"
    by (auto simp: malformed_definition_def extractPartitionKeys_def split: option.splits)
next
  assume a: "\<not> malformed_definition pkd \<and> pkd = Some d \<and> systemKey d \<noteq> Some True \<and>
    (\<forall>p \<in> set (definition_paths pkd). extractPartitionKey E p document \<noteq> JUndefined)"
  then obtain ps where ps: "paths d = Some ps" "ps \<noteq> []" "pkd = Some d"
    by (auto simp: malformed_definition_def split: option.splits)
  have dp: "definition_paths pkd = ps" using ps by (simp add: definition_paths_def)
  have all: "\<forall>p \<in> set ps. extractPartitionKey E p document \<noteq> JUndefined" using a dp by simp
  show "extractPartitionKeys E document pkd =
        Some (map (\<lambda>p. extractPartitionKey E p document) (definition_paths pkd))"
  proof (cases "length ps = 1 \<and> ps ! 0 = DEFAULT_PARTITION_KEY_PATH E")
    case True
    then obtain p where "ps = [p]" "p = DEFAULT_PARTITION_KEY_PATH E"
      by (cases ps) auto
    then show ?thesis using ps a dp by (simp add: extractPartitionKeys_def)
  next
    case False
    then show ?thesis using ps a dp foldl_forEach_callback[OF all, of "[]"]
      by (auto simp: extractPartitionKeys_def)
  qed
qed

theorem extractPartitionKeys_amended_witness:
  "extractPartitionKeys sample_imports (JObj [(''a'', JStr ''x'')]) None = None \<and>
   extractPartitionKeys sample_imports (JObj [(''a'', JStr ''x'')])
     (Some \<lparr>paths = Some [], systemKey = None\<rparr>) = None \<and>
   extractPartitionKeys sample_imports (JObj [(''a'', JStr ''x'')])
     (Some \<lparr>paths = Some [''/a''], systemKey = Some True\<rparr>) = Some [] \<and>
   extractPartitionKeys sample_imports (JObj [(''a'', JStr ''x'')])
     (Some \<lparr>paths = Some [''/a'', ''/b''], systemKey = None\<rparr>) = Some [JStr ''x'', JObj []]"
proof -
  let ?doc = "JObj [(''a'', JStr ''x'')]"
  let ?empty = "\<lparr>paths = Some [], systemKey = None\<rparr>"
  let ?sys = "\<lparr>paths = Some [''/a''], systemKey = Some True\<rparr>"
  let ?two = "\<lparr>paths = Some [''/a'', ''/b''], systemKey = None\<rparr>"
  have m: "malformed_definition None" "malformed_definition (Some ?empty)"
    "\<not> malformed_definition (Some ?sys)" "\<not> malformed_definition (Some ?two)"
    by (simp_all add: malformed_definition_def)
  have supported:
    "\<forall>p \<in> set (definition_paths (Some ?two)). extractPartitionKey sample_imports p ?doc \<noteq> JUndefined"
    by (simp add: definition_paths_def extractPartitionKey_def sample_imports_def
          lookup_property_def from_Object_prototype_def Object_prototype_def builtin_functions_def)
  have vals: "map (\<lambda>p. extractPartitionKey sample_imports p ?doc) (definition_paths (Some ?two)) =
      [JStr ''x'', JObj []]"
    by (simp add: definition_paths_def extractPartitionKey_def sample_imports_def
          lookup_property_def from_Object_prototype_def Object_prototype_def builtin_functions_def)
  from extractPartitionKeys_amended[where pkd = None and E = sample_imports and document = ?doc]
       extractPartitionKeys_amended[where pkd = "Some ?empty" and E = sample_imports and document = ?doc]
       extractPartitionKeys_amended[where pkd = "Some ?sys" and d = ?sys and E = sample_imports
         and document = ?doc]
       extractPartitionKeys_amended[where pkd = "Some ?two" and d = ?two and E = sample_imports
         and document = ?doc]
  show ?thesis using m supported vals by simp
qed

text \<open>
  The contract as worded fails twice.  A system-key definition with one path yields the
  empty list, not one entry per path.  And an array at the path, a value of an
  unsupported type, does not make the result \<open>undefined\<close>: the \<open>return undefined\<close> inside
  the \<open>forEach\<close> callback only skips the entry, and the list comes back one entry short.
\<close>

theorem extractPartitionKeys_claim_counterexample:
  "\<not> claimed_extraction_contract sample_imports (JObj [])
       (Some \<lparr>paths = Some [''/a''], systemKey = Some True\<rparr>) \<and>
   \<not> claimed_extraction_contract sample_imports (JObj [(''a'', JArr [JNum 1])])
       (Some \<lparr>paths = Some [''/a''], systemKey = None\<rparr>)"
  by (simp add: claimed_extraction_contract_def extractPartitionKeys_def sample_imports_def
        forEach_callback_def extractPartitionKey_def Let_def malformed_definition_def
        definition_paths_def lookup_property_def from_Object_prototype_def Object_prototype_def
        builtin_functions_def)

lemma unsupported_value_is_skipped:
  "extractPartitionKey sample_imports ''/a'' (JObj [(''a'', JArr [JNum 1]), (''b'', JStr ''x'')]) =
     JUndefined \<and>
   extractPartitionKeys sample_imports (JObj [(''a'', JArr [JNum 1]), (''b'', JStr ''x'')])
     (Some \<lparr>paths = Some [''/a'', ''/b''], systemKey = None\<rparr>) = Some [JStr ''x'']"
  by (simp add: extractPartitionKeys_def sample_imports_def forEach_callback_def
        extractPartitionKey_def Let_def lookup_property_def)

section \<open>Properties of the diagnostic node\<close>

lemma get_prop_alist_set:
  "get_prop (alist_set obj k v) k' = (if k' = k then v else get_prop obj k')"
  by (induction obj) (auto simp: get_prop_def)

lemma addData_no_msg:
  "addData E h this dat JUndefined None =
     Some (if diagnosticLevel (nodes h this) \<noteq> level_info E
           then h\<lparr>nodes := (nodes h)(this :=
                   (nodes h this)\<lparr>data := object_assign (object_assign [] (data (nodes h this))) dat\<rparr>)\<rparr>
           else h)"
  by (simp add: addData_def Let_def)

lemma requestData_written:
  "get_prop (object_assign d [(''failedAttempty'', JBool True), (''requestData'', v)]) ''requestData'' = v"
  by (simp add: object_assign_def get_prop_alist_set)

lemma captured_keys:
  "map_of (object_assign (object_assign [] (base_requestData rc)) (captured_requestData E rc)) ''headers''
     \<noteq> None"
  by (simp add: object_assign_def base_requestData_def captured_requestData_def)

lemma base_keys:
  "map_of (base_requestData rc) ''headers'' = None \<and>
   map_of (base_requestData rc) ''requestBody'' = None \<and>
   map_of (base_requestData rc) ''url'' = None"
  by (simp add: base_requestData_def)

text \<open>
  C4.  \<open>addChildNode\<close> returns the child and merges the child's diagnostic context into
  the context of the current node whether or not the verbosity gate passes.  When the
  gate passes for the given level, the child is appended to the children of the current
  node and the current node becomes its parent; when the gate fails, no node changes.
\<close>

theorem addChildNode_merges_always:
  "fst (addChildNode E h this child level metadataType) = child \<and>
   ctxs (snd (addChildNode E h this child level metadataType)) =
     (ctxs h)(diagnosticCtx (nodes h this) :=
        mergeDiagnostics E (ctxs h (diagnosticCtx (nodes h this)))
          (ctxs h (diagnosticCtx (nodes h child))) metadataType) \<and>
   (allowTracing E level (diagnosticLevel (nodes h this)) \<longrightarrow>
      children (nodes (snd (addChildNode E h this child level metadataType)) this) =
        children (nodes h this) @ [child] \<and>
      parent (nodes (snd (addChildNode E h this child level metadataType)) child) = Some this) \<and>
   (\<not> allowTracing E level (diagnosticLevel (nodes h this)) \<longrightarrow>
      nodes (snd (addChildNode E h this child level metadataType)) = nodes h)"
  by (simp add: addChildNode_def Let_def)

theorem addChildNode_merges_always_witness:
  "metadataLookups (ctxs (snd (addChildNode sample_diag_imports (two_node_store Info) 0 1 Debug ''pkr'')) 0) =
     [(''pkr'', JObj [(''statusCode'', JNum 200)])] \<and>
   nodes (snd (addChildNode sample_diag_imports (two_node_store Info) 0 1 Debug ''pkr'')) =
     nodes (two_node_store Info) \<and>
   metadataLookups (ctxs (snd (addChildNode sample_diag_imports (two_node_store Debug) 0 1 Debug ''pkr'')) 0) =
     [(''pkr'', JObj [(''statusCode'', JNum 200)])] \<and>
   children (nodes (snd (addChildNode sample_diag_imports (two_node_store Debug) 0 1 Debug ''pkr'')) 0) = [1] \<and>
   parent (nodes (snd (addChildNode sample_diag_imports (two_node_store Debug) 0 1 Debug ''pkr'')) 1) = Some 0"
  using addChildNode_merges_always[of sample_diag_imports "two_node_store Info" 0 1 Debug "''pkr''"]
        addChildNode_merges_always[of sample_diag_imports "two_node_store Debug" 0 1 Debug "''pkr''"]
  by (simp add: sample_diag_imports_def two_node_store_def new_DiagnosticNodeInternal_def
        lookup_context_def empty_context_def)

text \<open>
  C5.  For a node that exists in the store: when the requested level does not pass the
  verbosity gate against the node's configured level, \<open>initializeChildNode\<close> returns the
  node itself and leaves the store, and so its children list, unchanged.  When the gate
  passes, it returns a node at a fresh reference; that node is appended to the children
  list, has the given type, names the current node as parent and carries the parent's
  diagnostic context and configured level; no context and no other node changes.
\<close>

theorem initializeChildNode_gate:
  assumes "this < next_ref h"
  shows "(\<not> allowTracing E level (diagnosticLevel (nodes h this)) \<longrightarrow>
           initializeChildNode E h this type level data_arg now new_id = (this, h)) \<and>
         (allowTracing E level (diagnosticLevel (nodes h this)) \<longrightarrow>
           (\<exists>h'. initializeChildNode E h this type level data_arg now new_id = (next_ref h, h') \<and>
              next_ref h \<noteq> this \<and>
              children (nodes h' this) = children (nodes h this) @ [next_ref h] \<and>
              parent (nodes h' (next_ref h)) = Some this \<and>
              children (nodes h' (next_ref h)) = [] \<and>
              nodeType (nodes h' (next_ref h)) = type \<and>
              diagnosticCtx (nodes h' (next_ref h)) = diagnosticCtx (nodes h this) \<and>
              diagnosticLevel (nodes h' (next_ref h)) = diagnosticLevel (nodes h this) \<and>
              ctxs h' = ctxs h \<and>
              next_ref h' = Suc (next_ref h) \<and>
              (\<forall>r. r \<noteq> this \<and> r \<noteq> next_ref h \<longrightarrow> nodes h' r = nodes h r)))"
  using assms by (simp add: initializeChildNode_def Let_def new_DiagnosticNodeInternal_def)

theorem initializeChildNode_gate_witness:
  "initializeChildNode sample_diag_imports (sample_store Info) 0 HTTP_REQUEST Debug None 7 ''n1'' =
     (0, sample_store Info) \<and>
   (\<exists>h'. initializeChildNode sample_diag_imports (sample_store Debug) 0 HTTP_REQUEST Debug None 7 ''n1'' =
            (1, h') \<and>
      children (nodes h' 0) = [1] \<and> parent (nodes h' 1) = Some 0 \<and>
      diagnosticCtx (nodes h' 1) = 0 \<and> diagnosticLevel (nodes h' 1) = Debug \<and> next_ref h' = 2)"
proof -
  have a: "0 < next_ref (sample_store Info)" and b: "0 < next_ref (sample_store Debug)"
    by (simp_all add: sample_store_def)
  from initializeChildNode_gate[OF a, of sample_diag_imports Debug HTTP_REQUEST None 7 "''n1''"]
       initializeChildNode_gate[OF b, of sample_diag_imports Debug HTTP_REQUEST None 7 "''n1''"]
  show ?thesis
    by (auto simp: sample_diag_imports_def sample_store_def new_DiagnosticNodeInternal_def)
qed

text \<open>
  C6.  At every configured level, one call of \<open>recordFailedNetworkCall\<close> returns and
  applies \<open>recordFailedAttempt\<close> to the node's diagnostic context once, with the record of
  the attempt and the retry-attempt number the caller gave; so any counter that each
  \<open>recordFailedAttempt\<close> raises by one is raised by exactly one.  Headers, request body
  and URL are captured into the node's data exactly when the verbosity gate for the
  debug-unsafe level passes at the node's level (and that level is not \<open>info\<close>, at which
  \<open>addData\<close> writes nothing); with a gate that lets the debug-unsafe level pass only at
  the debug-unsafe level, capture happens at that level only.
\<close>

theorem recordFailedNetworkCall_records_once:
  "\<exists>h'. recordFailedNetworkCall E h this startTime requestContext retryAttemptNumber statusCode
           substatusCode responseHeaders now = Some h' \<and>
     ctxs h' = (ctxs h)(diagnosticCtx (nodes h this) :=
        recordFailedAttempt E (ctxs h (diagnosticCtx (nodes h this)))
          (failed_attempt_record E startTime requestContext statusCode substatusCode responseHeaders now)
          retryAttemptNumber) \<and>
     ((\<forall>ctx attempt n. count (recordFailedAttempt E ctx attempt n) = Suc (count ctx)) \<longrightarrow>
        count (ctxs h' (diagnosticCtx (nodes h this))) =
          Suc (count (ctxs h (diagnosticCtx (nodes h this))))) \<and>
     (\<not> captures_payload h this \<longrightarrow>
        captures_payload h' this =
          (allowTracing E (level_debugUnsafe E) (diagnosticLevel (nodes h this)) \<and>
           diagnosticLevel (nodes h this) \<noteq> level_info E)) \<and>
     ((\<forall>l. allowTracing E (level_debugUnsafe E) l \<longrightarrow> l = level_debugUnsafe E) \<and>
      \<not> captures_payload h this \<and> captures_payload h' this \<longrightarrow>
        diagnosticLevel (nodes h this) = level_debugUnsafe E)"
proof (cases "diagnosticLevel (nodes h this) = level_info E")
  case True
  then show ?thesis
    by (simp add: recordFailedNetworkCall_def addData_no_msg Let_def captures_payload_def)
next
  case False
  show ?thesis
  proof (cases "allowTracing E (level_debugUnsafe E) (diagnosticLevel (nodes h this))")
    case True
    with False show ?thesis
      using captured_keys[of requestContext E]
      by (simp add: recordFailedNetworkCall_def addData_no_msg Let_def captures_payload_def
            requestData_written)
  next
    case gate: False
    with False show ?thesis
      using base_keys[of requestContext]
      by (simp add: recordFailedNetworkCall_def addData_no_msg Let_def captures_payload_def
            requestData_written)
  qed
qed

theorem recordFailedNetworkCall_records_once_witness:
  "(\<exists>h'. recordFailedNetworkCall sample_diag_imports (sample_store DebugUnsafe) 0 100
            sample_requestContext (JNum 2) (JNum 503) (JNum 0)
            [(''x-ms-activity-id'', JStr ''a1'')] 130 = Some h' \<and>
          length (failedAttempts (ctxs h' 0)) = 1 \<and> captures_payload h' 0) \<and>
   (\<exists>h'. recordFailedNetworkCall sample_diag_imports (sample_store Info) 0 100
            sample_requestContext (JNum 2) (JNum 503) (JNum 0)
            [(''x-ms-activity-id'', JStr ''a1'')] 130 = Some h' \<and>
          length (failedAttempts (ctxs h' 0)) = 1 \<and> \<not> captures_payload h' 0)"
proof -
  have cnt: "\<forall>ctx attempt n.
      length (failedAttempts (recordFailedAttempt sample_diag_imports ctx attempt n)) =
      Suc (length (failedAttempts ctx))"
    by (simp add: sample_diag_imports_def)
  have clean: "\<not> captures_payload (sample_store l) 0" for l
    by (simp add: captures_payload_def sample_store_def new_DiagnosticNodeInternal_def get_prop_def)
  have len0: "length (failedAttempts (ctxs (sample_store l) r)) = 0" for l r
    by (simp add: sample_store_def empty_context_def)
  have ctx0: "diagnosticCtx (nodes (sample_store l) 0) = 0"
    and lvl: "diagnosticLevel (nodes (sample_store l) 0) = l" for l
    by (simp_all add: sample_store_def new_DiagnosticNodeInternal_def)
  have g1: "allowTracing sample_diag_imports (level_debugUnsafe sample_diag_imports) DebugUnsafe"
    and g2: "DebugUnsafe \<noteq> level_info sample_diag_imports"
    and g3: "Info = level_info sample_diag_imports"
    by (simp_all add: sample_diag_imports_def)
  from recordFailedNetworkCall_records_once[of sample_diag_imports "sample_store DebugUnsafe" 0 100
         sample_requestContext "JNum 2" "JNum 503" "JNum 0" "[(''x-ms-activity-id'', JStr ''a1'')]" 130
         "\<lambda>c. length (failedAttempts c)"]
  have first: "\<exists>h'. recordFailedNetworkCall sample_diag_imports (sample_store DebugUnsafe) 0 100
            sample_requestContext (JNum 2) (JNum 503) (JNum 0)
            [(''x-ms-activity-id'', JStr ''a1'')] 130 = Some h' \<and>
          length (failedAttempts (ctxs h' 0)) = 1 \<and> captures_payload h' 0"
    using cnt clean[of DebugUnsafe] g1 g2 by (auto simp: ctx0 lvl len0)
  from recordFailedNetworkCall_records_once[of sample_diag_imports "sample_store Info" 0 100
         sample_requestContext "JNum 2" "JNum 503" "JNum 0" "[(''x-ms-activity-id'', JStr ''a1'')]" 130
         "\<lambda>c. length (failedAttempts c)"]
  have second: "\<exists>h'. recordFailedNetworkCall sample_diag_imports (sample_store Info) 0 100
            sample_requestContext (JNum 2) (JNum 503) (JNum 0)
            [(''x-ms-activity-id'', JStr ''a1'')] 130 = Some h' \<and>
          length (failedAttempts (ctxs h' 0)) = 1 \<and> \<not> captures_payload h' 0"
    using cnt clean[of Info] g3 by (auto simp: ctx0 lvl len0)
  from first second show ?thesis by simp
qed

section \<open>Properties of the Group-By endpoint component\<close>

subsection \<open>Association lists\<close>



lemma last_rev_butlast: "xs \<noteq> [] \<Longrightarrow> last xs # rev (butlast xs) = rev xs"
  by (induction xs rule: rev_induct) simp_all

subsection \<open>The loop\<close>

lemma rows_of_Cons:
  "rows_of (r # rs) = (case result r of None \<Rightarrow> rows_of rs | Some x \<Rightarrow> x # rows_of rs)"
  by (simp add: rows_of_def split: option.splits)

lemma rows_of_Nil: "rows_of [] = []"
  by (simp add: rows_of_def)


text \<open>
  When the inner context answers the pulls \<open>evs\<close> and has no more results after them, and
  the rows among them are aggregated without error, the loop ends with the merged
  headers and the groupings those rows build.
\<close>

lemma drain_inner_delivers:
  "delivers E ic evs ic' \<Longrightarrow> process_rows E qi gs (rows_of evs) = (None, gs') \<Longrightarrow>
   drain_inner E qi ic gs ah = Some (Inr (foldl (mergeHeaders E) ah (map headers evs)), ic', gs')"
proof (induction evs arbitrary: ic gs ah)
  case Nil
  then show ?case by (subst drain_inner.simps) (simp add: rows_of_Nil)
next
  case (Cons r rs)
  from Cons.prems(1) obtain ic1 where
    more: "inner_hasMoreResults E ic" and nxt: "inner_nextItem E ic = (Inr r, ic1)" and
    rest: "delivers E ic1 rs ic'"
    by (auto split: prod.splits sum.splits)
  show ?case
  proof (cases "result r")
    case None
    with Cons.prems(2) have "process_rows E qi gs (rows_of rs) = (None, gs')"
      by (simp add: rows_of_Cons)
    from Cons.IH[OF rest this] show ?thesis
      using more nxt None by (subst drain_inner.simps) simp
  next
    case (Some rw)
    with Cons.prems(2) obtain gs1 where
      p1: "process_row E qi gs rw = (None, gs1)" and
      p2: "process_rows E qi gs1 (rows_of rs) = (None, gs')"
      by (auto simp: rows_of_Cons split: prod.splits option.splits)
    from Cons.IH[OF rest p2] show ?thesis
      using more nxt Some p1 by (subst drain_inner.simps) simp
  qed
qed

lemma drain_inner_throws:
  "delivers_then_throws E ic evs err ic' \<Longrightarrow> process_rows E qi gs (rows_of evs) = (None, gs') \<Longrightarrow>
   drain_inner E qi ic gs ah = Some (Inl err, ic', gs')"
proof (induction evs arbitrary: ic gs ah)
  case Nil
  then show ?case by (subst drain_inner.simps) (simp add: rows_of_Nil)
next
  case (Cons r rs)
  from Cons.prems(1) obtain ic1 where
    more: "inner_hasMoreResults E ic" and nxt: "inner_nextItem E ic = (Inr r, ic1)" and
    rest: "delivers_then_throws E ic1 rs err ic'"
    by (auto split: prod.splits sum.splits)
  show ?case
  proof (cases "result r")
    case None
    with Cons.prems(2) have "process_rows E qi gs (rows_of rs) = (None, gs')"
      by (simp add: rows_of_Cons)
    from Cons.IH[OF rest this] show ?thesis
      using more nxt None by (subst drain_inner.simps) simp
  next
    case (Some rw)
    with Cons.prems(2) obtain gs1 where
      p1: "process_row E qi gs rw = (None, gs1)" and
      p2: "process_rows E qi gs1 (rows_of rs) = (None, gs')"
      by (auto simp: rows_of_Cons split: prod.splits option.splits)
    from Cons.IH[OF rest p2] show ?thesis
      using more nxt Some p1 by (subst drain_inner.simps) simp
  qed
qed


subsection \<open>The groupings a run builds\<close>
















lemma built_grouping_snoc:
  "rs \<noteq> [] \<Longrightarrow>
   built_grouping E qi (rs @ [r]) =
     map (\<lambda>(k, a). (k, foldl (aggregate E) a (later_feeds E r k))) (built_grouping E qi rs)"
  by (cases rs) (simp_all add: built_grouping_def)

lemma keys_built_grouping:
  "map fst (built_grouping E qi (r0 # rest)) = first_occurrences (object_keys (payload r0))"
  by (simp add: built_grouping_def comp_def)











subsection \<open>Calls of \<open>nextItem\<close>\<close>

lemma nextItem_buffered:
  "aggregateResultArray c \<noteq> [] \<Longrightarrow>
   nextItem E c =
     Some (Inr \<lparr>result = Some (last (aggregateResultArray c)), headers = getInitialHeader E\<rparr>,
           c\<lparr>aggregateResultArray := butlast (aggregateResultArray c)\<rparr>)"
  by (simp add: nextItem_def array_pop_def)

lemma nextItem_exhausted:
  "aggregateResultArray c = [] \<Longrightarrow> completed c \<Longrightarrow>
   nextItem E c = Some (Inr \<lparr>result = None, headers = getInitialHeader E\<rparr>, c)"
  by (simp add: nextItem_def)

lemma emit_n_completed:
  "completed c \<Longrightarrow> length (aggregateResultArray c) \<le> n \<Longrightarrow>
   emit_n n E c = Some (rev (aggregateResultArray c), c\<lparr>aggregateResultArray := []\<rparr>)"
proof (induction n arbitrary: c)
  case 0
  then show ?case by simp
next
  case (Suc n)
  show ?case
  proof (cases "aggregateResultArray c = []")
    case True
    with Suc.prems have "nextItem E c = Some (Inr \<lparr>result = None, headers = getInitialHeader E\<rparr>, c)"
      by (simp add: nextItem_exhausted)
    moreover have "emit_n n E c = Some (rev (aggregateResultArray c), c\<lparr>aggregateResultArray := []\<rparr>)"
      using Suc.IH[of c] Suc.prems True by simp
    ultimately show ?thesis using True by simp
  next
    case False
    let ?c' = "c\<lparr>aggregateResultArray := butlast (aggregateResultArray c)\<rparr>"
    have nx: "nextItem E c = Some (Inr \<lparr>result = Some (last (aggregateResultArray c)),
        headers = getInitialHeader E\<rparr>, ?c')"
      using False by (rule nextItem_buffered)
    have "emit_n n E ?c' = Some (rev (aggregateResultArray ?c'), ?c'\<lparr>aggregateResultArray := []\<rparr>)"
      using Suc.prems by (intro Suc.IH) simp_all
    moreover have "last (aggregateResultArray c) # rev (butlast (aggregateResultArray c)) =
      rev (aggregateResultArray c)"
      using False by (rule last_rev_butlast)
    ultimately show ?thesis using nx by simp
  qed
qed

lemma nextItem_drains:
  assumes "aggregateResultArray c = []" and "\<not> completed c"
    and "drain_inner E (queryInfo c) (executionContext c) (groupings c) (getInitialHeader E) =
           Some (Inr ah, ic', gs')"
  shows "nextItem E c =
     Some (Inr \<lparr>result = fst (array_pop (map (\<lambda>(g, grouping). group_result E grouping) gs')),
                headers = ah\<rparr>,
           c\<lparr>executionContext := ic', groupings := gs',
             aggregateResultArray := snd (array_pop (map (\<lambda>(g, grouping). group_result E grouping) gs')),
             completed := True\<rparr>)"
  using assms by (simp add: nextItem_def split: prod.splits)

text \<open>
  The first call drains the inner context and returns the row of the last grouping;
  the calls after it pop the others.  Together they emit the rows of all groupings,
  last grouping first.
\<close>

lemma emit_n_drains:
  assumes "aggregateResultArray c = []" and "\<not> completed c"
    and "drain_inner E (queryInfo c) (executionContext c) (groupings c) (getInitialHeader E) =
           Some (Inr ah, ic', gs')"
    and "length gs' \<le> Suc n"
  shows "emit_n (Suc n) E c =
     Some (rev (map (\<lambda>(g, grouping). group_result E grouping) gs'),
           c\<lparr>executionContext := ic', groupings := gs', aggregateResultArray := [],
             completed := True\<rparr>)"
proof -
  let ?full = "map (\<lambda>(g, grouping). group_result E grouping) gs'"
  let ?c1 = "c\<lparr>executionContext := ic', groupings := gs',
             aggregateResultArray := snd (array_pop ?full), completed := True\<rparr>"
  have nx: "nextItem E c = Some (Inr \<lparr>result = fst (array_pop ?full), headers = ah\<rparr>, ?c1)"
    using assms(1-3) by (rule nextItem_drains)
  have len: "length (aggregateResultArray ?c1) \<le> n"
    using assms(4) by (auto simp: array_pop_def)
  have "emit_n n E ?c1 = Some (rev (aggregateResultArray ?c1), ?c1\<lparr>aggregateResultArray := []\<rparr>)"
    using len by (intro emit_n_completed) simp_all
  moreover have "(case fst (array_pop ?full) of None \<Rightarrow> [] | Some x \<Rightarrow> [x]) @
      rev (snd (array_pop ?full)) = rev ?full"
    by (cases "gs' = []") (simp_all add: array_pop_def last_rev_butlast)
  ultimately show ?thesis using nx by simp
qed

subsection \<open>The sample run\<close>

lemma delivers_script: "delivers sample_gb_imports (map Inr evs) evs []"
  by (induction evs) (simp_all add: sample_gb_imports_def)


lemma rows_three_pages:
  "rows_of three_pages = [sample_row ''A'' 3, sample_row ''A'' 4, sample_row ''B'' 10]"
  by (simp add: rows_of_def three_pages_def)



text \<open>
  The rows \<open>A 3\<close>, \<open>A 4\<close>, \<open>B 10\<close>, spread over three pages with empty answers between
  them, come out as the two rows \<open>{sum: 10}\<close> and \<open>{sum: 7}\<close>.
\<close>

lemma sample_run:
  "emit_n 2 sample_gb_imports (new_GroupByEndpointComponent (map Inr three_pages) sample_queryInfo) =
     Some ([[(''sum'', JNum 10)], [(''sum'', JNum 7)]],
           \<lparr> executionContext = [], queryInfo = sample_queryInfo,
             groupings = [(''[{\"item\":\"A\"}]'', [(''sum'', SumAggregator 7)]),
                          (''[{\"item\":\"B\"}]'', [(''sum'', SumAggregator 10)])],
             aggregateResultArray = [], completed = True \<rparr>)"
proof -
  let ?gs = "[(''[{\"item\":\"A\"}]'', [(''sum'', SumAggregator 7)]),
              (''[{\"item\":\"B\"}]'', [(''sum'', SumAggregator 10)])]"
  let ?c = "new_GroupByEndpointComponent (map Inr three_pages) sample_queryInfo
              :: (script, string, sample_aggregator) GroupByEndpointComponent"
  have pr: "process_rows sample_gb_imports sample_queryInfo [] (rows_of three_pages) = (None, ?gs)"
    by (simp add: rows_three_pages process_row_def group_of_def sample_row_def sample_gb_imports_def
        seed_grouping_def seed_aggregator_def object_keys_def get_prop_def sample_queryInfo_def Let_def
        null_wrapper_def)
  have dr: "drain_inner sample_gb_imports (queryInfo ?c) (executionContext ?c) (groupings ?c)
              (getInitialHeader sample_gb_imports) =
            Some (Inr (foldl (mergeHeaders sample_gb_imports) (getInitialHeader sample_gb_imports)
                         (map headers three_pages)), [], ?gs)"
    using drain_inner_delivers[OF delivers_script pr] by (simp add: new_GroupByEndpointComponent_def)
  have b1: "aggregateResultArray ?c = []" and b2: "\<not> completed ?c"
    by (simp_all add: new_GroupByEndpointComponent_def)
  have len: "length ?gs \<le> Suc 1" by simp
  show ?thesis
    using emit_n_drains[OF b1 b2 dr len]
    by (simp add: numeral_2_eq_2 new_GroupByEndpointComponent_def group_result_def
          sample_gb_imports_def)
qed

subsection \<open>Draining, emitting and failing\<close>






text \<open>
  C7.  In every state of the component, \<open>hasMoreResults\<close> is true exactly when the inner
  execution context reports more results or the buffer of result rows is not empty.  So
  it is true for a new component over an inner context that has results, and when it
  is false the inner context is exhausted and the buffer is drained.
\<close>

theorem hasMoreResults_iff:
  "hasMoreResults E c =
     (inner_hasMoreResults E (executionContext c) \<or> aggregateResultArray c \<noteq> []) \<and>
   (inner_hasMoreResults E ic \<longrightarrow>
      hasMoreResults E (new_GroupByEndpointComponent ic qi :: ('ic, 'g, 'a) GroupByEndpointComponent)) \<and>
   (\<not> hasMoreResults E c \<longrightarrow>
      \<not> inner_hasMoreResults E (executionContext c) \<and> aggregateResultArray c = [])"
  by (simp add: hasMoreResults_def new_GroupByEndpointComponent_def)

theorem hasMoreResults_iff_witness:
  "hasMoreResults sample_gb_imports
     (new_GroupByEndpointComponent (map Inr one_page) sample_queryInfo
        :: (script, string, sample_aggregator) GroupByEndpointComponent) \<and>
   \<not> hasMoreResults sample_gb_imports
     (new_GroupByEndpointComponent [] sample_queryInfo
        :: (script, string, sample_aggregator) GroupByEndpointComponent)"
  using hasMoreResults_iff[of sample_gb_imports
      "new_GroupByEndpointComponent [] sample_queryInfo" "map Inr one_page" sample_queryInfo]
  by (simp add: sample_gb_imports_def new_GroupByEndpointComponent_def one_page_def)

text \<open>
  C8.  Let the component be draining (empty buffer, not completed), let the inner
  execution context answer some pulls, whose rows are aggregated without error, and
  throw at the next pull.  Then \<open>nextItem\<close> throws: the error of the inner context with
  \<open>fetchedResults\<close> set to \<open>undefined\<close> when its code is the resource-unit-cap code, and
  the very error otherwise.  The inner context is left as the failing pull left it (it
  is not pulled again), and the component is neither completed nor given a buffer.
\<close>

theorem nextItem_rethrows:
  assumes "aggregateResultArray c = []" and "\<not> completed c"
    and "delivers_then_throws E (executionContext c) evs err ic'"
    and "fst (process_rows E (queryInfo c) (groupings c) (rows_of evs)) = None"
  shows "\<exists>c'. nextItem E c =
           Some (Inl (if code err = RUCapPerOperationExceededErrorCode E
                      then err\<lparr>fetchedResults := JUndefined\<rparr> else err), c') \<and>
         executionContext c' = ic' \<and> \<not> completed c' \<and> aggregateResultArray c' = []"
proof -
  obtain gs' where pr: "process_rows E (queryInfo c) (groupings c) (rows_of evs) = (None, gs')"
    using assms(4) by (cases "process_rows E (queryInfo c) (groupings c) (rows_of evs)") auto
  have "drain_inner E (queryInfo c) (executionContext c) (groupings c) (getInitialHeader E) =
          Some (Inl err, ic', gs')"
    using assms(3) pr by (rule drain_inner_throws)
  then show ?thesis
    using assms(1,2) by (simp add: nextItem_def catch_handler_def)
qed

theorem nextItem_rethrows_witness:
  "(\<exists>c'. nextItem sample_gb_imports
            (new_GroupByEndpointComponent
               [Inr \<lparr>result = Some (sample_row ''A'' 3), headers = 1\<rparr>, Inl ru_cap_error]
               sample_queryInfo) =
          Some (Inl (ru_cap_error\<lparr>fetchedResults := JUndefined\<rparr>), c') \<and>
          executionContext c' = [] \<and> \<not> completed c' \<and> aggregateResultArray c' = []) \<and>
   (\<exists>c'. nextItem sample_gb_imports
            (new_GroupByEndpointComponent [Inl throttled_error] sample_queryInfo) =
          Some (Inl throttled_error, c') \<and>
          executionContext c' = [] \<and> \<not> completed c' \<and> aggregateResultArray c' = [])"
proof -
  let ?c1 = "new_GroupByEndpointComponent
               [Inr \<lparr>result = Some (sample_row ''A'' 3), headers = 1\<rparr>, Inl ru_cap_error]
               sample_queryInfo
             :: (script, string, sample_aggregator) GroupByEndpointComponent"
  let ?c2 = "new_GroupByEndpointComponent [Inl throttled_error] sample_queryInfo
             :: (script, string, sample_aggregator) GroupByEndpointComponent"
  have a1: "aggregateResultArray ?c1 = []" and a2: "\<not> completed ?c1"
    and b1: "aggregateResultArray ?c2 = []" and b2: "\<not> completed ?c2"
    by (simp_all add: new_GroupByEndpointComponent_def)
  have a3: "delivers_then_throws sample_gb_imports (executionContext ?c1)
              [\<lparr>result = Some (sample_row ''A'' 3), headers = 1\<rparr>] ru_cap_error []"
    by (simp add: new_GroupByEndpointComponent_def sample_gb_imports_def)
  have a4: "fst (process_rows sample_gb_imports (queryInfo ?c1) (groupings ?c1)
              (rows_of [\<lparr>result = Some (sample_row ''A'' 3), headers = 1::nat\<rparr>])) = None"
    by (simp add: new_GroupByEndpointComponent_def rows_of_def process_row_def)
  have b3: "delivers_then_throws sample_gb_imports (executionContext ?c2) [] throttled_error []"
    by (simp add: new_GroupByEndpointComponent_def sample_gb_imports_def)
  have b4: "fst (process_rows sample_gb_imports (queryInfo ?c2) (groupings ?c2) (rows_of [])) = None"
    by (simp add: rows_of_def)
  from nextItem_rethrows[OF a1 a2 a3 a4] nextItem_rethrows[OF b1 b2 b3 b4]
  show ?thesis by (simp add: sample_gb_imports_def ru_cap_error_def throttled_error_def)
qed

text \<open>
  The two branches of the loop body treat a payload value differently.  For a group
  seen before, a falsy value is replaced by the null wrapper before
  \<open>extractAggregateResult\<close>; for a new group the value goes to \<open>extractAggregateResult\<close>, or
  straight to the aggregator when the alias has no aggregate type, as it is.
\<close>

lemma seen_group_feeds_wrapper:
  "aggregate_existing E [(key, v)] [(key, a)] [key] =
     (None, [(key, aggregate E a (extractAggregateResult E (if truthy v then v else null_wrapper)))])"
  by (simp add: get_prop_def Let_def)

lemma new_group_feeds_raw_value:
  "seed_grouping E qi [(key, v)] =
     [(key, aggregate E (createAggregator E (get_prop (groupByAliasToAggregateType qi) key))
              (if truthy (get_prop (groupByAliasToAggregateType qi) key)
               then extractAggregateResult E v else v))]"
  by (simp add: seed_grouping_def seed_aggregator_def object_keys_def get_prop_def Let_def)

text \<open>
  C9, at a failing input.  Two rows of one group arrive, each with the payload field
  \<open>sum\<close> set to \<open>null\<close>, and the aggregator records what it is fed.  The second row, of a
  group seen before, is fed as the null wrapper \<open>new Map().set("item2", null)\<close>; the
  first row, which opens the group, is fed as the bare \<open>null\<close>: the branch for a new
  group does not replace an absent value.
\<close>

theorem null_field_not_wrapped_for_new_group:
  "process_rows recording_imports sample_queryInfo [] [row_with_null_field, row_with_null_field] =
     (None, [(''[{\"item\":\"A\"}]'', [(''sum'', [JNull, JMap [(''item2'', JNull)]])])])"
  by (simp add: process_row_def group_of_def row_with_null_field_def recording_imports_def
        seed_grouping_def seed_aggregator_def object_keys_def get_prop_def sample_queryInfo_def
        Let_def null_wrapper_def)

text \<open>
  C10.  Once the component is completed and its buffer is empty, \<open>nextItem\<close> returns an
  \<open>undefined\<close> result with the initial headers and leaves the component, the state of
  the inner execution context included, as it was.  The answer is the same whatever
  the inner context would do when asked or pulled, and any number of further calls
  emits nothing and ends in the same state.
\<close>

theorem nextItem_exhausted_stable:
  assumes "completed c" and "aggregateResultArray c = []"
  shows "nextItem E c = Some (Inr \<lparr>result = None, headers = getInitialHeader E\<rparr>, c) \<and>
         nextItem (E\<lparr>inner_hasMoreResults := probe, inner_nextItem := pull\<rparr>) c =
           Some (Inr \<lparr>result = None, headers = getInitialHeader E\<rparr>, c) \<and>
         emit_n n E c = Some ([], c)"
proof -
  have "emit_n n E c = Some (rev (aggregateResultArray c), c\<lparr>aggregateResultArray := []\<rparr>)"
    using assms by (intro emit_n_completed) simp_all
  moreover have "c\<lparr>aggregateResultArray := []\<rparr> = c" using assms(2) by (cases c) simp
  ultimately show ?thesis using assms by (simp add: nextItem_exhausted)
qed

theorem nextItem_exhausted_stable_witness:
  "nextItem sample_gb_imports exhausted_component =
     Some (Inr \<lparr>result = None, headers = 0\<rparr>, exhausted_component) \<and>
   emit_n 3 sample_gb_imports exhausted_component = Some ([], exhausted_component)"
proof -
  have 1: "completed exhausted_component" and 2: "aggregateResultArray exhausted_component = []"
    by (simp_all add: exhausted_component_def)
  from nextItem_exhausted_stable[where E = sample_gb_imports and n = 3, OF 1 2]
  show ?thesis by (simp add: sample_gb_imports_def)
qed

end
